theory Spec2Isabelle
  imports Complex_Main "HOL-Library.Option_ord"
begin

section \<open>The inventory ledger (app/models/database.py)\<close>

text \<open>
  The relational store is four tables. A table is the list of its rows in insertion
  order. Calendar days (the DATE columns, written by the code as ISO-8601 text
  \<^verbatim>\<open>YYYY-MM-DD\<close>) are day ordinals: the byte order SQLite uses on such text is the order
  of the days. A NULL expiry date is \<open>None\<close>; SQLite sorts NULL before every value
  in an ascending ORDER BY, which is the order of \<open>int option\<close>.
  The autoincrement key and the default timestamp of a ledger row are left out: the
  position in the list stands for both.
\<close>

type_synonym iso_date = int

record product_row =
  p_id :: nat
  p_name :: string
  p_category :: string
  p_price :: real
  current_inventory :: int

record batch_row =
  b_id :: nat
  b_product_id :: nat
  b_quantity :: int
  b_expiry_date :: "iso_date option"
  b_entry_date :: iso_date

record ledger_row =
  l_product_id :: nat
  l_transaction_type :: string
  l_quantity :: int
  l_notes :: string

record daily_row =
  d_product_id :: nat
  d_date :: iso_date
  d_sales :: int
  d_inventory_snapshot :: int
  d_price_snapshot :: "real option"

record db =
  products :: "product_row list"
  inventory_batches :: "batch_row list"
  inventory_ledger :: "ledger_row list"
  daily_stats :: "daily_row list"

text \<open>
  Every statement that \<^verbatim>\<open>log_transaction\<close> sends to the connection inside its
  \<^verbatim>\<open>try\<close> block. Any of them may raise; a fault schedule says which do, and with
  which message (\<^verbatim>\<open>str(e)\<close>).
\<close>

datatype stmt =
    SelectProduct
  | UpdateProduct
  | InsertLedger
  | UpsertDailyStats
  | SelectBatches
  | UpdateBatch nat
  | Commit

type_synonym faults = "stmt \<Rightarrow> string option"

definition no_faults :: faults where
  "no_faults = (\<lambda>_. None)"

definition execute :: "faults \<Rightarrow> stmt \<Rightarrow> 'a \<Rightarrow> string + 'a" where
  "execute F s v = (case F s of Some msg \<Rightarrow> Inl msg | None \<Rightarrow> Inr v)"

definition and_then :: "string + 'a \<Rightarrow> ('a \<Rightarrow> string + 'b) \<Rightarrow> string + 'b" where
  "and_then r f = (case r of Inl e \<Rightarrow> Inl e | Inr v \<Rightarrow> f v)"

text \<open>\<^verbatim>\<open>UPDATE products SET current_inventory = ? WHERE id = ?\<close>\<close>

definition update_inventory :: "nat \<Rightarrow> int \<Rightarrow> product_row list \<Rightarrow> product_row list" where
  "update_inventory pid new_inv tbl =
     map (\<lambda>p. if p_id p = pid then p\<lparr>current_inventory := new_inv\<rparr> else p) tbl"

text \<open>
  The upsert of today's row: \<^verbatim>\<open>INSERT ... ON CONFLICT(product_id, date) DO UPDATE SET
  sales = sales + ?, inventory_snapshot = ?\<close>. A new row takes its price from
  \<^verbatim>\<open>(SELECT price FROM products WHERE id=?)\<close>.
\<close>

definition upsert_daily_stats ::
  "nat \<Rightarrow> iso_date \<Rightarrow> int \<Rightarrow> int \<Rightarrow> real option \<Rightarrow> daily_row list \<Rightarrow> daily_row list" where
  "upsert_daily_stats pid today sold new_inv price tbl =
     (if \<exists>r \<in> set tbl. d_product_id r = pid \<and> d_date r = today
      then map (\<lambda>r. if d_product_id r = pid \<and> d_date r = today
                     then r\<lparr>d_sales := d_sales r + sold, d_inventory_snapshot := new_inv\<rparr>
                     else r) tbl
      else tbl @ [\<lparr>d_product_id = pid, d_date = today, d_sales = sold,
                   d_inventory_snapshot = new_inv, d_price_snapshot = price\<rparr>])"

text \<open>
  \<^verbatim>\<open>SELECT id, quantity FROM inventory_batches WHERE product_id = ? AND quantity > 0
  ORDER BY expiry_date ASC\<close>. Rows with equal expiry dates keep their table order.
\<close>

definition select_batches :: "nat \<Rightarrow> batch_row list \<Rightarrow> batch_row list" where
  "select_batches pid tbl =
     sort_key b_expiry_date (filter (\<lambda>b. b_product_id b = pid \<and> 0 < b_quantity b) tbl)"

text \<open>\<^verbatim>\<open>UPDATE inventory_batches SET quantity = quantity - ? WHERE id = ?\<close>\<close>

definition update_batch_quantity :: "nat \<Rightarrow> int \<Rightarrow> batch_row list \<Rightarrow> batch_row list" where
  "update_batch_quantity bid deduct tbl =
     map (\<lambda>b. if b_id b = bid then b\<lparr>b_quantity := b_quantity b - deduct\<rparr> else b) tbl"

text \<open>The loop \<^verbatim>\<open>for b in batches\<close> with its \<^verbatim>\<open>break\<close>.\<close>

fun fifo_deduct :: "faults \<Rightarrow> int \<Rightarrow> batch_row list \<Rightarrow> batch_row list \<Rightarrow> string + batch_row list" where
  "fifo_deduct F remaining_to_deduct [] tbl = Inr tbl"
| "fifo_deduct F remaining_to_deduct (b # bs) tbl =
     (if remaining_to_deduct \<le> 0 then Inr tbl
      else let deduct = min (b_quantity b) remaining_to_deduct in
        and_then (execute F (UpdateBatch (b_id b)) (update_batch_quantity (b_id b) deduct tbl))
          (\<lambda>tbl'. fifo_deduct F (remaining_to_deduct - deduct) bs tbl'))"

text \<open>
  The body of the \<^verbatim>\<open>try\<close> block. \<open>Inl msg\<close> is an exception with that message;
  \<open>Inr None\<close> is the early return for an unknown product; \<open>Inr (Some (new_inv, d'))\<close>
  is the committed state.
\<close>

definition find_product :: "string \<Rightarrow> product_row list \<Rightarrow> product_row option" where
  "find_product product_name tbl = find (\<lambda>p. p_name p = product_name) tbl"

definition log_transaction_body ::
  "faults \<Rightarrow> iso_date \<Rightarrow> string \<Rightarrow> int \<Rightarrow> string \<Rightarrow> db \<Rightarrow> string + (int \<times> db) option" where
  "log_transaction_body F today product_name quantity t_type d =
     and_then (execute F SelectProduct (find_product product_name (products d)))
       (\<lambda>row. case row of
          None \<Rightarrow> Inr None
        | Some r \<Rightarrow>
            let pid = p_id r;
                current_inv = current_inventory r;
                change = (if t_type = ''SALE'' then - quantity else quantity);
                new_inv = max 0 (current_inv + change);
                sold = (if t_type = ''SALE'' then quantity else 0)
            in
            and_then (execute F UpdateProduct
                        (d\<lparr>products := update_inventory pid new_inv (products d)\<rparr>))
              (\<lambda>d1.
            and_then (execute F InsertLedger
                        (d1\<lparr>inventory_ledger := inventory_ledger d1 @
                              [\<lparr>l_product_id = pid, l_transaction_type = t_type,
                                l_quantity = change, l_notes = ''Manual '' @ t_type\<rparr>]\<rparr>))
              (\<lambda>d2.
            and_then (execute F UpsertDailyStats
                        (d2\<lparr>daily_stats := upsert_daily_stats pid today sold new_inv
                              (map_option p_price (find (\<lambda>p. p_id p = pid) (products d2)))
                              (daily_stats d2)\<rparr>))
              (\<lambda>d3.
            and_then (if t_type = ''SALE''
                      then and_then (execute F SelectBatches
                                       (select_batches pid (inventory_batches d3)))
                             (\<lambda>batches.
                           and_then (fifo_deduct F quantity batches (inventory_batches d3))
                             (\<lambda>tbl. Inr (d3\<lparr>inventory_batches := tbl\<rparr>)))
                      else Inr d3)
              (\<lambda>d4.
            and_then (execute F Commit d4)
              (\<lambda>d5. Inr (Some (new_inv, d5))))))))"

text \<open>
  What the caller gets: \<^verbatim>\<open>{'status': 'success', 'new_inventory': n}\<close> or
  \<^verbatim>\<open>{'error': msg}\<close>, and the state of the store afterwards. The handler
  \<^verbatim>\<open>except Exception as e: conn.rollback()\<close> discards every pending write of the
  connection, and so does closing it without a commit on the early return.
\<close>

datatype txn_result = Success int | Failure string

definition log_transaction ::
  "faults \<Rightarrow> iso_date \<Rightarrow> string \<Rightarrow> int \<Rightarrow> string \<Rightarrow> db \<Rightarrow> txn_result \<times> db" where
  "log_transaction F today product_name quantity t_type d =
     (case log_transaction_body F today product_name quantity t_type d of
        Inl msg \<Rightarrow> (Failure msg, d)
      | Inr None \<Rightarrow> (Failure ''Product not found'', d)
      | Inr (Some (new_inv, d')) \<Rightarrow> (Success new_inv, d'))"

text \<open>
  The statements a call sends when none of them raises, in order: the run with a fault
  schedule follows this list up to its first faulty statement.
\<close>

fun fifo_statements :: "int \<Rightarrow> batch_row list \<Rightarrow> stmt list" where
  "fifo_statements remaining_to_deduct [] = []"
| "fifo_statements remaining_to_deduct (b # bs) =
     (if remaining_to_deduct \<le> 0 then []
      else UpdateBatch (b_id b) #
           fifo_statements (remaining_to_deduct - min (b_quantity b) remaining_to_deduct) bs)"

definition statements_sent :: "string \<Rightarrow> int \<Rightarrow> string \<Rightarrow> db \<Rightarrow> stmt list" where
  "statements_sent product_name quantity t_type d =
     SelectProduct #
     (case find_product product_name (products d) of
        None \<Rightarrow> []
      | Some r \<Rightarrow>
          [UpdateProduct, InsertLedger, UpsertDailyStats] @
          (if t_type = ''SALE''
           then SelectBatches #
                fifo_statements quantity (select_batches (p_id r) (inventory_batches d))
           else []) @
          [Commit])"

definition first_fault :: "faults \<Rightarrow> stmt list \<Rightarrow> string option" where
  "first_fault F ss = (case find (\<lambda>s. F s \<noteq> None) ss of None \<Rightarrow> None | Some s \<Rightarrow> F s)"

text \<open>The quantity the table holds for a batch id (0 when the table has no such row).\<close>

definition quantity_of :: "batch_row list \<Rightarrow> nat \<Rightarrow> int" where
  "quantity_of tbl bid =
     (case find (\<lambda>b. b_id b = bid) tbl of None \<Rightarrow> 0 | Some b \<Rightarrow> b_quantity b)"


section \<open>Python numbers\<close>

text \<open>
  Floats are real numbers here: rounding error is left out, everything else is kept.
  \<^verbatim>\<open>round(x, n)\<close> rounds half to even; \<^verbatim>\<open>int(x)\<close> truncates towards zero and
  raises \<^verbatim>\<open>ValueError\<close> on NaN; \<^verbatim>\<open>/\<close> raises \<^verbatim>\<open>ZeroDivisionError\<close> on a zero
  divisor; \<^verbatim>\<open>iloc[-1]\<close> raises \<^verbatim>\<open>IndexError\<close> on an empty frame. A pandas
  aggregate that is NaN is \<open>None\<close>.
\<close>

datatype py_error = ZeroDivisionError | ValueError | IndexError

definition py_round :: "real \<Rightarrow> int" where
  "py_round x =
     (let f = \<lfloor>x\<rfloor>; r = x - of_int f
      in if r < 1 / 2 then f else if 1 / 2 < r then f + 1 else if even f then f else f + 1)"

definition round_to :: "nat \<Rightarrow> real \<Rightarrow> real" where
  "round_to ndigits x = of_int (py_round (x * 10 ^ ndigits)) / 10 ^ ndigits"

definition py_int :: "real \<Rightarrow> int" where
  "py_int x = (if 0 \<le> x then \<lfloor>x\<rfloor> else \<lceil>x\<rceil>)"

definition mean :: "real list \<Rightarrow> real option" where
  "mean xs = (if xs = [] then None else Some (sum_list xs / real (length xs)))"

text \<open>\<^verbatim>\<open>Series.std()\<close>: the sample standard deviation, NaN for fewer than two values.\<close>

definition std :: "real list \<Rightarrow> real option" where
  "std xs =
     (if length xs < 2 then None
      else let m = sum_list xs / real (length xs)
           in Some (sqrt (sum_list (map (\<lambda>x. (x - m)\<^sup>2) xs) / (real (length xs) - 1))))"

text \<open>\<^verbatim>\<open>Series.tail(k)\<close>\<close>

definition tail :: "nat \<Rightarrow> 'a list \<Rightarrow> 'a list" where
  "tail k xs = drop (length xs - k) xs"

text \<open>
  \<^verbatim>\<open>np.polyfit(np.arange(len(y)), y, 1)[0]\<close>: the slope of the least-squares line
  through the points \<open>(0, y\<^sub>0), (1, y\<^sub>1), \<dots>\<close>; called on at least seven points.
\<close>

definition polyfit_slope :: "real list \<Rightarrow> real" where
  "polyfit_slope ys =
     (let n = length ys;
          xs = map real [0..<n];
          xbar = sum_list xs / real n;
          ybar = sum_list ys / real n
      in sum_list (map (\<lambda>(x, y). (x - xbar) * (y - ybar)) (zip xs ys)) /
         sum_list (map (\<lambda>x. (x - xbar)\<^sup>2) xs))"

section \<open>Demand forecast (app/models/forecasting.py)\<close>

text \<open>A row of the per-product frame; timestamps are seconds.\<close>

type_synonym timestamp = int

record history_row =
  date :: timestamp
  sales :: int
  inventory :: int
  price :: real
  expiry_date :: "timestamp option"

record forecast_info =
  forecast_days :: "int list"
  demand_trend_pct :: real
  confidence_score :: real
  confidence_tier :: string
  last_7d_avg :: real

definition sales_of :: "history_row list \<Rightarrow> real list" where
  "sales_of product_data = map (\<lambda>r. real_of_int (sales r)) (sort_key date product_data)"

definition trend_pct_of :: "real list \<Rightarrow> real" where
  "trend_pct_of ys =
     (let recent = tail 14 ys
      in if 7 \<le> length recent
         then let slope = polyfit_slope recent;
                  avg_sales = sum_list recent / real (length recent)
              in if 0 < avg_sales then slope / max avg_sales 1 * 100 else 0
         else 0)"

definition volatility_of :: "real list \<Rightarrow> real" where
  "volatility_of ys =
     (case (std ys, mean ys) of
        (Some s, Some m) \<Rightarrow> if 0 < s \<and> 0 < m then s / m else 0
      | _ \<Rightarrow> 0)"

definition forecast_demand :: "history_row list \<Rightarrow> py_error + forecast_info" where
  "forecast_demand product_data =
     (let ys = sales_of product_data;
          trend_pct = trend_pct_of ys;
          volatility = volatility_of ys;
          confidence = max (1 / 10) (1 - min volatility (1 / 2));
          tier = (if 7 / 10 < confidence then ''HIGH''
                  else if 4 / 10 < confidence then ''MEDIUM'' else ''LOW'');
          last_avg = (if ys \<noteq> [] then mean (tail 7 ys) else mean ys)
      in case last_avg of
           None \<Rightarrow> Inl ValueError
         | Some a \<Rightarrow>
             Inr \<lparr>forecast_days =
                    map (\<lambda>i. max 1 (py_int (a * (1 + trend_pct / 100 * real i / 7)))) [1..<8],
                  demand_trend_pct = round_to 1 trend_pct,
                  confidence_score = round_to 2 confidence,
                  confidence_tier = tier,
                  last_7d_avg = (if a \<noteq> 0 then round_to 1 a else 0)\<rparr>)"

section \<open>Inventory risk (app/models/inventory_risk.py)\<close>

text \<open>
  The fields \<^verbatim>\<open>reason\<close> and \<^verbatim>\<open>expiry_date\<close> of the result are formatted text and are
  left out. The frame's dates are timestamps, so a missing \<^verbatim>\<open>current_date\<close> is the
  clock's \<open>now\<close>.
\<close>

record inventory_risk =
  risk_level :: string
  days_of_stock :: real
  current_inventory_units :: int
  avg_daily_sales :: real
  expiry_risk :: string

definition days_between :: "timestamp \<Rightarrow> timestamp \<Rightarrow> int" where
  "days_between later earlier = (later - earlier) div 86400"

definition assess_inventory_risk ::
  "timestamp \<Rightarrow> history_row list \<Rightarrow> forecast_info \<Rightarrow> timestamp option \<Rightarrow> py_error + inventory_risk" where
  "assess_inventory_risk now product_data info current_date =
     (if product_data = [] then Inl IndexError
      else
        let today = (case current_date of None \<Rightarrow> now | Some c \<Rightarrow> c);
            latest = last product_data;
            stock = inventory latest;
            avg = last_7d_avg info;
            dos = (if 0 < avg then real_of_int stock / avg else 999);
            demand_trend = demand_trend_pct info;
            expiry_risk_level =
              (case expiry_date latest of
                 None \<Rightarrow> ''NONE''
               | Some e \<Rightarrow>
                   let days_to_expiry = days_between e today
                   in if days_to_expiry \<le> 1 then ''CRITICAL''
                      else if days_to_expiry \<le> 3 then ''HIGH''
                      else if days_to_expiry \<le> 7 then ''MEDIUM''
                      else ''NONE'');
            level =
              (if expiry_risk_level = ''CRITICAL'' then ''HIGH_RISK''
               else if 21 < dos \<and> demand_trend < - 5 then ''HIGH_RISK''
               else if 14 < dos \<and> demand_trend < 0 then ''MEDIUM_RISK''
               else if dos < 3 \<and> 10 < demand_trend then ''OPPORTUNITY''
               else if dos < 7 \<and> 5 < demand_trend then ''OPPORTUNITY''
               else ''STABLE'')
        in Inr \<lparr>risk_level = level,
                days_of_stock = round_to 1 dos,
                current_inventory_units = stock,
                avg_daily_sales = round_to 1 avg,
                expiry_risk = expiry_risk_level\<rparr>)"

section \<open>Risk and opportunity engine (app/models/risk_engine.py)\<close>

record metrics =
  current_avg :: real
  trend_7d :: real
  volatility :: real
  stock_days :: real
  stockout_risk :: real
  metrics_expiry_date :: "timestamp option"
  metrics_date :: timestamp

text \<open>
  The result without its presentation fields (colour, icon, trend arrow and text,
  stock-out colour, and the \<^verbatim>\<open>reason\<close> sentence).
\<close>

record classification =
  category :: string
  priority :: nat
  risk_score :: int
  opportunity_score :: int
  rounded_days_of_stock :: real
  stockout_status :: string
  recommended_action :: string
  rounded_avg_daily_sales :: real
  expiry_risk_level :: string

definition get_recommended_action :: "string \<Rightarrow> string" where
  "get_recommended_action c =
     (if c = ''HIGH_RISK'' then ''Discount by 15-20% to clear excess stock''
      else if c = ''OPPORTUNITY'' then ''Increase inventory to meet demand''
      else if c = ''MEDIUM_RISK'' then ''Monitor closely for 7 days''
      else if c = ''STABLE'' then ''Maintain current levels''
      else ''Monitor as usual'')"

text \<open>The expiry check: the points it adds to the risk score, and its label.\<close>

definition expiry_check :: "metrics \<Rightarrow> int \<times> string" where
  "expiry_check m =
     (case metrics_expiry_date m of
        None \<Rightarrow> (0, ''NONE'')
      | Some e \<Rightarrow>
          let days_to_expiry = days_between e (metrics_date m)
          in if days_to_expiry \<le> 1 then (100, ''CRITICAL'')
             else if days_to_expiry \<le> 3 then (50, ''HIGH'')
             else if days_to_expiry \<le> 7 then (20, ''MEDIUM'')
             else (0, ''NONE''))"

definition classify_product_v2 :: "metrics \<Rightarrow> real \<Rightarrow> classification" where
  "classify_product_v2 m forecast_growth =
     (let risk = fst (expiry_check m)
               + (if trend_7d m < - 10 then 30 else 0)
               + (if 25 < stock_days m then 25 else 0)
               + (if 3 / 10 < stockout_risk m then 20 else 0)
               + (if 4 / 10 < volatility m then 15 else 0);
          opportunity = (if 15 < trend_7d m then 30 else 0)
               + (if stock_days m < 7 then 25 else 0)
               + (if 10 < forecast_growth then 20 else 0)
               + (if volatility m < 2 / 10 \<and> 5 < trend_7d m then 15 else (0::int));
          (cat, prio) =
             (if 60 \<le> risk \<and> opportunity < 30 then (''HIGH_RISK'', 1)
              else if 60 \<le> opportunity \<and> risk < 30 then (''OPPORTUNITY'', 1)
              else if opportunity < risk then (''MEDIUM_RISK'', 2)
              else if risk < opportunity then (''STABLE'', 2)
              else (''STABLE'', 3))
      in \<lparr>category = cat,
          priority = prio,
          risk_score = risk,
          opportunity_score = opportunity,
          rounded_days_of_stock = round_to 1 (stock_days m),
          stockout_status = (if stock_days m \<le> 3 then ''IMMINENT''
                             else if stock_days m \<le> 7 then ''SOON'' else ''SAFE''),
          recommended_action = get_recommended_action cat,
          rounded_avg_daily_sales = round_to 1 (current_avg m),
          expiry_risk_level = snd (expiry_check m)\<rparr>)"

section \<open>What-if simulator (app/models/simulator.py)\<close>

text \<open>Each result record leaves out the constant \<^verbatim>\<open>scenario\<close> tag.\<close>

record price_impact =
  price_change_pct :: real
  demand_change_pct :: real
  new_demand :: int
  forecast_new :: int
  revenue_change_pct :: real
  price_recommendation :: string

record promotion_impact =
  discount_pct :: real
  lift_pct :: real
  predicted_daily_sales :: int
  revenue_impact :: real
  is_profitable :: bool
  promotion_recommendation :: string

record inventory_impact =
  stock_change_pct :: real
  stockout_risk_reduction :: real
  holding_cost_change :: real
  lost_sales_risk_pct :: real
  inventory_recommendation :: string

record competitor_impact =
  competitor_drop_pct :: real
  demand_impact_pct :: real
  revenue_impact_pct :: real
  competitor_recommendation :: string

record marketing_impact =
  ad_spend :: real
  traffic_lift_pct :: real
  daily_revenue_increase :: real
  break_even_days :: real
  marketing_recommendation :: string

definition default_elasticity :: real where
  "default_elasticity = 1"

definition simulate_price_impact ::
  "real \<Rightarrow> real \<Rightarrow> real \<Rightarrow> real \<Rightarrow> real option \<Rightarrow> py_error + price_impact" where
  "simulate_price_impact current_price new_price current_demand forecast elasticity =
     (let e = (case elasticity of None \<Rightarrow> default_elasticity | Some v \<Rightarrow> v)
      in if current_price = 0 then Inl ZeroDivisionError
         else
           let price_change = (new_price - current_price) / current_price * 100;
               demand_change = - e * price_change;
               demand' = current_demand * (1 + demand_change / 100);
               forecast' = forecast * (1 + demand_change / 100);
               current_revenue = current_demand * current_price;
               new_revenue = demand' * new_price;
               revenue_change = (if 0 < current_revenue
                                 then (new_revenue - current_revenue) / current_revenue * 100
                                 else 0)
           in Inr \<lparr>price_change_pct = round_to 1 price_change,
                   demand_change_pct = round_to 1 demand_change,
                   new_demand = py_int (max 0 demand'),
                   forecast_new = py_int (max 0 forecast'),
                   revenue_change_pct = round_to 1 revenue_change,
                   price_recommendation =
                     (if 0 < revenue_change then ''INCREASE''
                      else if revenue_change < - 5 then ''DECREASE'' else ''HOLD'')\<rparr>)"

definition simulate_promotion ::
  "real \<Rightarrow> real \<Rightarrow> int \<Rightarrow> real \<Rightarrow> py_error + promotion_impact" where
  "simulate_promotion current_price discount duration_days current_daily_sales =
     (let lift = discount * 2;
          predicted = current_daily_sales * (1 + lift / 100);
          total_sales_units = predicted * real_of_int duration_days;
          discounted_price = current_price * (1 - discount / 100);
          total_revenue = total_sales_units * discounted_price;
          baseline_revenue = current_daily_sales * real_of_int duration_days * current_price;
          revenue_change = total_revenue - baseline_revenue
      in Inr \<lparr>discount_pct = discount,
              lift_pct = discount * 2,
              predicted_daily_sales = py_int predicted,
              revenue_impact = round_to 2 revenue_change,
              is_profitable = (0 < revenue_change),
              promotion_recommendation = (if 0 < revenue_change then ''RUN'' else ''MODIFY'')\<rparr>)"

definition simulate_inventory_change ::
  "real \<Rightarrow> real \<Rightarrow> real \<Rightarrow> real \<Rightarrow> py_error + inventory_impact" where
  "simulate_inventory_change current_stock_days new_stock_days current_demand unit_price =
     (if current_stock_days = 0 then Inl ZeroDivisionError
      else
        let stock_change = (new_stock_days - current_stock_days) / current_stock_days * 100;
            risk_reduction = (if 0 < stock_change then min 40 (\<bar>stock_change\<bar> * (8 / 10)) else 0);
            holding_cost_impact =
              (new_stock_days - current_stock_days) * current_demand * unit_price * (1 / 1000);
            lost_sales_risk = (if new_stock_days < 7 \<and> 7 \<le> current_stock_days
                               then (7 - new_stock_days) * 5 else 0)
        in Inr \<lparr>stock_change_pct = round_to 1 stock_change,
                stockout_risk_reduction = round_to 1 risk_reduction,
                holding_cost_change = round_to 2 holding_cost_impact,
                lost_sales_risk_pct = round_to 1 lost_sales_risk,
                inventory_recommendation =
                  (if 0 < stock_change \<and> 20 < risk_reduction then ''INCREASE''
                   else if stock_change < 0 \<and> 10 < holding_cost_impact then ''DECREASE''
                   else ''HOLD'')\<rparr>)"

definition simulate_competitor_move ::
  "real \<Rightarrow> real \<Rightarrow> real \<Rightarrow> real option \<Rightarrow> py_error + competitor_impact" where
  "simulate_competitor_move current_price competitor_price_drop_pct current_demand elasticity =
     (let e = (case elasticity of None \<Rightarrow> 1 / 2 | Some v \<Rightarrow> v);
          demand_drop = competitor_price_drop_pct * e
      in Inr \<lparr>competitor_drop_pct = competitor_price_drop_pct,
              demand_impact_pct = - round_to 1 demand_drop,
              revenue_impact_pct = - round_to 1 demand_drop,
              competitor_recommendation =
                (if 10 < demand_drop then ''MATCH_PRICE'' else ''MONITOR'')\<rparr>)"

definition simulate_marketing_campaign ::
  "real \<Rightarrow> real \<Rightarrow> real \<Rightarrow> real \<Rightarrow> py_error + marketing_impact" where
  "simulate_marketing_campaign current_price current_daily_sales spend expected_lift_pct =
     (let new_daily_sales = current_daily_sales * (1 + expected_lift_pct / 100);
          daily_revenue_lift = (new_daily_sales - current_daily_sales) * current_price;
          break_even = (if 0 < daily_revenue_lift then spend / daily_revenue_lift else 999)
      in Inr \<lparr>ad_spend = spend,
              traffic_lift_pct = expected_lift_pct,
              daily_revenue_increase = round_to 2 daily_revenue_lift,
              break_even_days = round_to 1 break_even,
              marketing_recommendation =
                (if break_even < 7 then ''RUN_CAMPAIGN'' else ''REDUCE_COST'')\<rparr>)"

section \<open>Catalogue-wide scenarios: the product sample\<close>

text \<open>
  \<^verbatim>\<open>simulate_global_scenario\<close> of app/services/simulator_service.py, up to the sample
  it iterates over: \<^verbatim>\<open>params.get('segment', 'all')\<close>, the two slices, and the cap
  \<^verbatim>\<open>products[:50]\<close>.
\<close>

definition segment_products :: "string \<Rightarrow> 'a list \<Rightarrow> 'a list" where
  "segment_products segment ps =
     (if segment = ''high_risk'' then take (length ps div 3) ps
      else if segment = ''opportunity''
           then drop (length ps div 3) (take (2 * length ps div 3) ps)
      else ps)"

definition target_products :: "string option \<Rightarrow> 'a list \<Rightarrow> 'a list" where
  "target_products segment_param ps =
     take 50 (segment_products (case segment_param of None \<Rightarrow> ''all'' | Some s \<Rightarrow> s) ps)"

text \<open>
  The filter of \<^verbatim>\<open>simulate_all_products\<close> in app/models/analyzer.py, which reads each
  product's \<^verbatim>\<open>risk_level\<close>; the segment name is compared in upper case.
\<close>

definition analyzer_segment_products :: "('a \<Rightarrow> string) \<Rightarrow> string \<Rightarrow> 'a list \<Rightarrow> 'a list" where
  "analyzer_segment_products risk_level_of filter_segment ps =
     filter (\<lambda>p. \<not> (filter_segment \<noteq> ''ALL'' \<and>
                     ((filter_segment = ''HIGH_RISK'' \<and> risk_level_of p \<noteq> ''HIGH_RISK'') \<or>
                      (filter_segment = ''OPPORTUNITY'' \<and> risk_level_of p \<noteq> ''OPPORTUNITY'')))) ps"


section \<open>Example data\<close>

definition milk :: product_row where
  "milk = \<lparr>p_id = 1, p_name = ''Milk'', p_category = ''Dairy'', p_price = 2,
            current_inventory = 5\<rparr>"

definition late_batch :: batch_row where
  "late_batch = \<lparr>b_id = 1, b_product_id = 1, b_quantity = 3, b_expiry_date = Some 20,
                  b_entry_date = 1\<rparr>"

definition early_batch :: batch_row where
  "early_batch = \<lparr>b_id = 2, b_product_id = 1, b_quantity = 2, b_expiry_date = Some 10,
                   b_entry_date = 1\<rparr>"

definition dairy :: db where
  "dairy = \<lparr>products = [milk], inventory_batches = [late_batch, early_batch],
             inventory_ledger = [], daily_stats = []\<rparr>"

definition dairy_sold :: "int \<Rightarrow> int \<Rightarrow> int \<Rightarrow> int \<Rightarrow> db" where
  "dairy_sold sold left late early =
     \<lparr>products = [milk\<lparr>current_inventory := left\<rparr>],
      inventory_batches = [late_batch\<lparr>b_quantity := late\<rparr>, early_batch\<lparr>b_quantity := early\<rparr>],
      inventory_ledger = [\<lparr>l_product_id = 1, l_transaction_type = ''SALE'',
                           l_quantity = - sold, l_notes = ''Manual SALE''\<rparr>],
      daily_stats = [\<lparr>d_product_id = 1, d_date = 100, d_sales = sold,
                      d_inventory_snapshot = left, d_price_snapshot = Some 2\<rparr>]\<rparr>"

definition disk_full :: faults where
  "disk_full = (\<lambda>s. if s = UpdateBatch 1 then Some ''database or disk is full'' else None)"

definition h234 :: "history_row list" where
  "h234 = [\<lparr>date = 0, sales = 2, inventory = 10, price = 1, expiry_date = None\<rparr>,
           \<lparr>date = 86400, sales = 3, inventory = 10, price = 1, expiry_date = None\<rparr>,
           \<lparr>date = 172800, sales = 4, inventory = 10, price = 1, expiry_date = None\<rparr>]"

definition info3 :: forecast_info where
  "info3 = \<lparr>forecast_days = [3, 3, 3, 3, 3, 3, 3], demand_trend_pct = 0,
            confidence_score = 67 / 100, confidence_tier = ''MEDIUM'', last_7d_avg = 3\<rparr>"

definition info0 :: forecast_info where
  "info0 = \<lparr>forecast_days = [1, 1, 1, 1, 1, 1, 1], demand_trend_pct = 0,
            confidence_score = 1, confidence_tier = ''HIGH'', last_7d_avg = 0\<rparr>"

definition expiring_and_trending :: metrics where
  "expiring_and_trending =
     \<lparr>current_avg = 10, trend_7d = 20, volatility = 1 / 10, stock_days = 10,
      stockout_risk = 0, metrics_expiry_date = Some 86400, metrics_date = 0\<rparr>"

definition catalogue :: "string list" where
  "catalogue = [''Apples'', ''Bread'', ''Cheese'']"

definition catalogue_risk :: "string \<Rightarrow> string" where
  "catalogue_risk p = (if p = ''Cheese'' then ''HIGH_RISK'' else ''STABLE'')"

section \<open>Properties of the ledger\<close>

lemma execute_Inr: "execute F s v = Inr w \<Longrightarrow> w = v \<and> F s = None"
  by (auto simp: execute_def split: option.splits)

lemma execute_cases:
  "execute F s v = (case F s of Some msg \<Rightarrow> Inl msg | None \<Rightarrow> Inr v)"
  by (simp add: execute_def)

lemma execute_no_faults: "execute no_faults s v = Inr v"
  by (simp add: execute_def no_faults_def)

lemma and_then_Inr: "and_then r f = Inr y \<Longrightarrow> \<exists>v. r = Inr v \<and> f v = Inr y"
  by (cases r) (auto simp: and_then_def)

lemma and_then_Inl: "and_then (Inl e) f = Inl e"
  by (simp add: and_then_def)

lemma and_then_Inr_eq: "and_then (Inr v) f = f v"
  by (simp add: and_then_def)

lemma log_transaction_body_success:
  assumes "log_transaction_body F today product_name quantity t_type d = Inr (Some (n, d'))"
      and "find_product product_name (products d) = Some r"
  shows "n = max 0 (current_inventory r + (if t_type = ''SALE'' then - quantity else quantity))"
    and "products d' = update_inventory (p_id r) n (products d)"
    and "inventory_ledger d' = inventory_ledger d @
           [\<lparr>l_product_id = p_id r, l_transaction_type = t_type,
             l_quantity = (if t_type = ''SALE'' then - quantity else quantity),
             l_notes = ''Manual '' @ t_type\<rparr>]"
    and "t_type = ''SALE'' \<Longrightarrow>
           fifo_deduct F quantity (select_batches (p_id r) (inventory_batches d))
             (inventory_batches d) = Inr (inventory_batches d')"
    and "t_type \<noteq> ''SALE'' \<Longrightarrow> inventory_batches d' = inventory_batches d"
  using assms
  unfolding log_transaction_body_def Let_def
  by (auto dest!: and_then_Inr execute_Inr split: if_splits)

lemma log_transaction_Success:
  "log_transaction F today product_name quantity t_type d = (Success n, d') \<Longrightarrow>
   log_transaction_body F today product_name quantity t_type d = Inr (Some (n, d'))"
  by (auto simp: log_transaction_def split: sum.splits option.splits prod.splits)

lemma find_product_update_inventory:
  "find_product product_name tbl = Some r \<Longrightarrow>
   find_product product_name (update_inventory (p_id r) n tbl) =
     Some (r\<lparr>current_inventory := n\<rparr>)"
  unfolding find_product_def update_inventory_def
  by (induction tbl) (auto split: if_splits)

lemmas ledger_defs = log_transaction_def log_transaction_body_def execute_def and_then_def
  find_product_def update_inventory_def upsert_daily_stats_def select_batches_def
  update_batch_quantity_def no_faults_def dairy_def dairy_sold_def milk_def late_batch_def
  early_batch_def Let_def

lemma dairy_sale_7:
  "log_transaction no_faults 100 ''Milk'' 7 ''SALE'' dairy = (Success 0, dairy_sold 7 0 0 0)"
  by (simp add: ledger_defs)

lemma dairy_sale_4:
  "log_transaction no_faults 100 ''Milk'' 4 ''SALE'' dairy = (Success 1, dairy_sold 4 1 1 0)"
  by (simp add: ledger_defs)

lemma fifo_deduct_no_faults: "\<exists>tbl'. fifo_deduct no_faults remaining bs tbl = Inr tbl'"
  by (induction bs arbitrary: remaining tbl)
     (simp_all add: execute_no_faults and_then_Inr_eq Let_def)

lemma log_transaction_no_faults_succeeds:
  assumes "find_product product_name (products d) = Some r"
  shows "\<exists>d'. log_transaction no_faults today product_name quantity t_type d =
           (Success (max 0 (current_inventory r +
                      (if t_type = ''SALE'' then - quantity else quantity))), d')"
proof -
  obtain tbl' where "fifo_deduct no_faults quantity
      (select_batches (p_id r) (inventory_batches d)) (inventory_batches d) = Inr tbl'"
    using fifo_deduct_no_faults by blast
  then show ?thesis
    using assms
    by (simp add: log_transaction_def log_transaction_body_def execute_no_faults
        and_then_Inr_eq Let_def)
qed

text \<open>
  C1. For a product whose cached inventory is \<open>i\<close> and a SALE of \<open>quantity > 0\<close>:
  when no statement raises, the call succeeds with \<open>max 0 (i - quantity)\<close>; and every
  successful call returns and stores \<open>max 0 (i - quantity)\<close>, which is never negative,
  and appends one ledger row whose quantity is the full signed delta \<open>- quantity\<close>,
  clamped or not.
\<close>

theorem sale_clamps_inventory_and_logs_full_delta:
  assumes found: "find_product product_name (products d) = Some r"
      and pos: "0 < quantity"
  shows "(\<exists>d'. log_transaction no_faults today product_name quantity ''SALE'' d =
            (Success (max 0 (current_inventory r - quantity)), d')) \<and>
         (\<forall>F n d'. log_transaction F today product_name quantity ''SALE'' d = (Success n, d') \<longrightarrow>
            n = max 0 (current_inventory r - quantity) \<and> 0 \<le> n \<and>
            map_option current_inventory (find_product product_name (products d')) = Some n \<and>
            inventory_ledger d' = inventory_ledger d @
              [\<lparr>l_product_id = p_id r, l_transaction_type = ''SALE'',
                l_quantity = - quantity, l_notes = ''Manual SALE''\<rparr>])"
proof (intro conjI allI impI)
  show "\<exists>d'. log_transaction no_faults today product_name quantity ''SALE'' d =
            (Success (max 0 (current_inventory r - quantity)), d')"
    using log_transaction_no_faults_succeeds [OF found, of today quantity "''SALE''"] by simp
next
  fix F n d'
  assume run: "log_transaction F today product_name quantity ''SALE'' d = (Success n, d')"
  note body = log_transaction_Success [OF run]
  show n: "n = max 0 (current_inventory r - quantity)"
    using log_transaction_body_success(1) [OF body found] by simp
  then show "0 \<le> n" by simp
  have "products d' = update_inventory (p_id r) n (products d)"
    using log_transaction_body_success(2) [OF body found] .
  then show "map_option current_inventory (find_product product_name (products d')) = Some n"
    using find_product_update_inventory [OF found] by simp
  show "inventory_ledger d' = inventory_ledger d @
           [\<lparr>l_product_id = p_id r, l_transaction_type = ''SALE'',
             l_quantity = - quantity, l_notes = ''Manual SALE''\<rparr>]"
    using log_transaction_body_success(3) [OF body found] by simp
qed

theorem sale_clamps_inventory_witness:
  "find_product ''Milk'' (products dairy) = Some milk \<and> current_inventory milk = 5 \<and>
   log_transaction no_faults 100 ''Milk'' 7 ''SALE'' dairy = (Success 0, dairy_sold 7 0 0 0) \<and>
   map_option current_inventory (find_product ''Milk'' (products (dairy_sold 7 0 0 0))) = Some 0 \<and>
   inventory_ledger (dairy_sold 7 0 0 0) =
     [\<lparr>l_product_id = 1, l_transaction_type = ''SALE'', l_quantity = - 7,
       l_notes = ''Manual SALE''\<rparr>]"
proof -
  have found: "find_product ''Milk'' (products dairy) = Some milk"
    by (simp add: find_product_def dairy_def milk_def)
  have pos: "(0::int) < 7" by simp
  have "map_option current_inventory (find_product ''Milk'' (products (dairy_sold 7 0 0 0))) = Some 0 \<and>
    inventory_ledger (dairy_sold 7 0 0 0) = inventory_ledger dairy @
      [\<lparr>l_product_id = p_id milk, l_transaction_type = ''SALE'', l_quantity = - 7,
        l_notes = ''Manual SALE''\<rparr>]"
    using sale_clamps_inventory_and_logs_full_delta [OF found pos, of 100] dairy_sale_7 by blast
  then show ?thesis
    using found dairy_sale_7 by (simp add: milk_def dairy_def)
qed

subsection \<open>Rollback\<close>

lemma first_fault_Nil: "first_fault F [] = None"
  by (simp add: first_fault_def)

lemma first_fault_Cons:
  "first_fault F (s # ss) = (case F s of Some msg \<Rightarrow> Some msg | None \<Rightarrow> first_fault F ss)"
  by (auto simp: first_fault_def split: option.splits)

lemma first_fault_append:
  "first_fault F (ss @ ts) =
     (case first_fault F ss of Some msg \<Rightarrow> Some msg | None \<Rightarrow> first_fault F ts)"
  by (induction ss) (auto simp: first_fault_Nil first_fault_Cons split: option.splits)

lemma fifo_deduct_nonpos: "remaining \<le> 0 \<Longrightarrow> fifo_deduct F remaining bs tbl = Inr tbl"
  by (cases bs) auto

lemma fifo_deduct_faults:
  "fifo_deduct F remaining bs tbl =
     (case first_fault F (fifo_statements remaining bs) of
        Some msg \<Rightarrow> Inl msg
      | None \<Rightarrow> fifo_deduct no_faults remaining bs tbl)"
proof (induction bs arbitrary: remaining tbl)
  case Nil
  then show ?case by (simp add: first_fault_Nil)
next
  case (Cons b bs)
  show ?case
  proof (cases "remaining \<le> 0")
    case True
    then show ?thesis by (simp add: first_fault_Nil)
  next
    case False
    show ?thesis
    proof (cases "F (UpdateBatch (b_id b))")
      case None
      then show ?thesis
        using False Cons.IH
        by (simp add: first_fault_Cons execute_cases [of F] execute_no_faults and_then_Inr_eq
            Let_def split: option.splits)
    next
      case (Some msg)
      then show ?thesis
        using False
        by (simp add: first_fault_Cons execute_cases and_then_Inl Let_def)
    qed
  qed
qed

lemma log_transaction_body_faults:
  "log_transaction_body F today product_name quantity t_type d =
     (case first_fault F (statements_sent product_name quantity t_type d) of
        Some msg \<Rightarrow> Inl msg
      | None \<Rightarrow> log_transaction_body no_faults today product_name quantity t_type d)"
proof (cases "find_product product_name (products d)")
  case None
  then show ?thesis
    by (simp add: log_transaction_body_def statements_sent_def first_fault_Cons first_fault_Nil
        execute_cases [of F] execute_no_faults and_then_Inl and_then_Inr_eq
        split: option.splits)
next
  case (Some r)
  show ?thesis
  proof (cases "t_type = ''SALE''")
    case True
    obtain tbl' where "fifo_deduct no_faults quantity
          (select_batches (p_id r) (inventory_batches d)) (inventory_batches d) = Inr tbl'"
      using fifo_deduct_no_faults by blast
    then show ?thesis
      unfolding log_transaction_body_def statements_sent_def Let_def
      using Some True
      apply (subst fifo_deduct_faults)
      apply (simp add: first_fault_Cons first_fault_append first_fault_Nil execute_cases [of F]
          execute_no_faults and_then_Inl and_then_Inr_eq split: option.splits)
      done
  next
    case False
    show ?thesis
      unfolding log_transaction_body_def statements_sent_def Let_def
      using Some False
      by (simp add: first_fault_Cons first_fault_append first_fault_Nil execute_cases [of F]
          execute_no_faults and_then_Inl and_then_Inr_eq split: option.splits)
  qed
qed

text \<open>
  C2. Whatever statement of the transaction raises, and with whatever message: the call
  returns the failure result carrying the message of the first statement that raised,
  and the store is the one the call started from. No failure result, the one for an
  unknown product included, ever comes with a changed store.
\<close>

theorem failed_transaction_rolls_back:
  "(\<forall>msg d'. log_transaction F today product_name quantity t_type d = (Failure msg, d')
              \<longrightarrow> d' = d) \<and>
   (\<forall>msg. first_fault F (statements_sent product_name quantity t_type d) = Some msg \<longrightarrow>
          log_transaction F today product_name quantity t_type d = (Failure msg, d))"
proof (intro conjI allI impI)
  fix msg d'
  assume "log_transaction F today product_name quantity t_type d = (Failure msg, d')"
  then show "d' = d"
    by (auto simp: log_transaction_def split: sum.splits option.splits prod.splits)
next
  fix msg
  assume "first_fault F (statements_sent product_name quantity t_type d) = Some msg"
  then have "log_transaction_body F today product_name quantity t_type d = Inl msg"
    by (simp add: log_transaction_body_faults)
  then show "log_transaction F today product_name quantity t_type d = (Failure msg, d)"
    by (simp add: log_transaction_def)
qed

theorem failed_transaction_witness:
  "statements_sent ''Milk'' 4 ''SALE'' dairy =
     [SelectProduct, UpdateProduct, InsertLedger, UpsertDailyStats, SelectBatches,
      UpdateBatch 2, UpdateBatch 1, Commit] \<and>
   first_fault disk_full (statements_sent ''Milk'' 4 ''SALE'' dairy) =
     Some ''database or disk is full'' \<and>
   log_transaction disk_full 100 ''Milk'' 4 ''SALE'' dairy =
     (Failure ''database or disk is full'', dairy)"
proof -
  have sent: "statements_sent ''Milk'' 4 ''SALE'' dairy =
     [SelectProduct, UpdateProduct, InsertLedger, UpsertDailyStats, SelectBatches,
      UpdateBatch 2, UpdateBatch 1, Commit]"
    by (simp add: statements_sent_def find_product_def select_batches_def dairy_def milk_def
        late_batch_def early_batch_def)
  have fault: "first_fault disk_full (statements_sent ''Milk'' 4 ''SALE'' dairy) =
     Some ''database or disk is full''"
    unfolding sent by (simp add: first_fault_def disk_full_def)
  show ?thesis
    using failed_transaction_rolls_back [of disk_full 100 "''Milk''" 4 "''SALE''" dairy]
      sent fault
    by simp
qed

subsection \<open>FIFO consumption of batches\<close>


lemma quantity_of_update_other:
  "j \<noteq> i \<Longrightarrow> quantity_of (update_batch_quantity i x tbl) j = quantity_of tbl j"
  unfolding quantity_of_def update_batch_quantity_def
  by (induction tbl) auto

lemma quantity_of_update_same:
  "quantity_of tbl i \<noteq> 0 \<Longrightarrow>
   quantity_of (update_batch_quantity i x tbl) i = quantity_of tbl i - x"
  unfolding quantity_of_def update_batch_quantity_def
  by (induction tbl) auto

lemma quantity_of_member:
  "distinct (map b_id tbl) \<Longrightarrow> b \<in> set tbl \<Longrightarrow> quantity_of tbl (b_id b) = b_quantity b"
  unfolding quantity_of_def
  by (induction tbl) (auto simp: image_iff)

lemma quantity_of_absent:
  "i \<notin> b_id ` set tbl \<Longrightarrow> quantity_of tbl i = 0"
  unfolding quantity_of_def
  by (induction tbl) auto

lemma fifo_deduct_step:
  assumes "fifo_deduct F remaining (b # bs) tbl = Inr tbl'" and "0 < remaining"
  shows "fifo_deduct F (remaining - min (b_quantity b) remaining) bs
           (update_batch_quantity (b_id b) (min (b_quantity b) remaining) tbl) = Inr tbl'"
  using assms by (auto simp: Let_def dest!: and_then_Inr execute_Inr)

lemma fifo_deduct_others:
  assumes "fifo_deduct F remaining bs tbl = Inr tbl'" and "i \<notin> b_id ` set bs"
  shows "quantity_of tbl' i = quantity_of tbl i"
  using assms
proof (induction bs arbitrary: remaining tbl)
  case Nil
  then show ?case by simp
next
  case (Cons b bs)
  show ?case
  proof (cases "remaining \<le> 0")
    case True
    with Cons.prems show ?thesis by simp
  next
    case False
    then have step: "fifo_deduct F (remaining - min (b_quantity b) remaining) bs
           (update_batch_quantity (b_id b) (min (b_quantity b) remaining) tbl) = Inr tbl'"
      using fifo_deduct_step [OF Cons.prems(1)] by simp
    have "i \<noteq> b_id b" and "i \<notin> b_id ` set bs" using Cons.prems(2) by auto
    then show ?thesis
      using Cons.IH [OF step] by (simp add: quantity_of_update_other)
  qed
qed

lemma fifo_deduct_bounds:
  assumes "fifo_deduct F remaining bs tbl = Inr tbl'"
      and "distinct (map b_id bs)"
      and "\<forall>b \<in> set bs. 0 < b_quantity b \<and> quantity_of tbl (b_id b) = b_quantity b"
      and "c \<in> set bs"
  shows "0 \<le> quantity_of tbl' (b_id c) \<and> quantity_of tbl' (b_id c) \<le> b_quantity c"
  using assms
proof (induction bs arbitrary: remaining tbl)
  case Nil
  then show ?case by simp
next
  case (Cons b bs)
  show ?case
  proof (cases "remaining \<le> 0")
    case True
    then have "tbl' = tbl" using Cons.prems(1) by simp
    then show ?thesis using Cons.prems(3,4) by auto
  next
    case False
    let ?x = "min (b_quantity b) remaining"
    let ?t = "update_batch_quantity (b_id b) ?x tbl"
    have step: "fifo_deduct F (remaining - ?x) bs ?t = Inr tbl'"
      using fifo_deduct_step [OF Cons.prems(1)] False by simp
    have fresh: "b_id b \<notin> b_id ` set bs" and dist: "distinct (map b_id bs)"
      using Cons.prems(2) by auto
    have qb: "0 < b_quantity b" "quantity_of tbl (b_id b) = b_quantity b"
      using Cons.prems(3) by auto
    have rest: "\<forall>a \<in> set bs. 0 < b_quantity a \<and> quantity_of ?t (b_id a) = b_quantity a"
    proof
      fix a assume a: "a \<in> set bs"
      then have "b_id a \<noteq> b_id b" using fresh by (metis image_eqI)
      then show "0 < b_quantity a \<and> quantity_of ?t (b_id a) = b_quantity a"
        using Cons.prems(3) a by (simp add: quantity_of_update_other)
    qed
    show ?thesis
    proof (cases "c = b")
      case True
      have "quantity_of tbl' (b_id b) = quantity_of ?t (b_id b)"
        using fifo_deduct_others [OF step fresh] .
      also have "\<dots> = b_quantity b - ?x"
        using qb by (simp add: quantity_of_update_same)
      finally show ?thesis using True qb False by auto
    next
      case False
      then have "c \<in> set bs" using Cons.prems(4) by simp
      then show ?thesis using Cons.IH [OF step dist rest] by simp
    qed
  qed
qed

lemma fifo_deduct_order:
  assumes "fifo_deduct F remaining bs tbl = Inr tbl'"
      and "distinct (map b_id bs)"
      and "\<forall>b \<in> set bs. 0 < b_quantity b \<and> quantity_of tbl (b_id b) = b_quantity b"
      and "k < j" and "j < length bs"
      and "quantity_of tbl' (b_id (bs ! j)) < b_quantity (bs ! j)"
  shows "quantity_of tbl' (b_id (bs ! k)) = 0"
  using assms
proof (induction bs arbitrary: remaining tbl k j)
  case Nil
  then show ?case by simp
next
  case (Cons b bs)
  have fresh: "b_id b \<notin> b_id ` set bs" and dist: "distinct (map b_id bs)"
    using Cons.prems(2) by auto
  have qb: "0 < b_quantity b" "quantity_of tbl (b_id b) = b_quantity b"
    using Cons.prems(3) by auto
  obtain j' where j': "j = Suc j'" "j' < length bs"
    using Cons.prems(4,5) by (cases j) auto
  have mem: "bs ! j' \<in> set bs" using j' by simp
  have changed: "quantity_of tbl' (b_id (bs ! j')) < b_quantity (bs ! j')"
    using Cons.prems(6) j' by simp
  have pos: "0 < remaining"
  proof (rule ccontr)
    assume "\<not> 0 < remaining"
    then have "tbl' = tbl" using Cons.prems(1) by simp
    then show False using changed Cons.prems(3) mem by auto
  qed
  let ?x = "min (b_quantity b) remaining"
  let ?t = "update_batch_quantity (b_id b) ?x tbl"
  have step: "fifo_deduct F (remaining - ?x) bs ?t = Inr tbl'"
    using fifo_deduct_step [OF Cons.prems(1) pos] .
  have rest: "\<forall>a \<in> set bs. 0 < b_quantity a \<and> quantity_of ?t (b_id a) = b_quantity a"
  proof
    fix a assume a: "a \<in> set bs"
    then have "b_id a \<noteq> b_id b" using fresh by (metis image_eqI)
    then show "0 < b_quantity a \<and> quantity_of ?t (b_id a) = b_quantity a"
      using Cons.prems(3) a by (simp add: quantity_of_update_other)
  qed
  show ?case
  proof (cases k)
    case 0
    have left: "0 < remaining - ?x"
    proof (rule ccontr)
      assume "\<not> 0 < remaining - ?x"
      then have "tbl' = ?t" using step by (simp add: fifo_deduct_nonpos)
      then show False using changed rest mem by auto
    qed
    have "quantity_of tbl' (b_id b) = quantity_of ?t (b_id b)"
      using fifo_deduct_others [OF step fresh] .
    also have "\<dots> = b_quantity b - ?x"
      using qb by (simp add: quantity_of_update_same)
    also have "\<dots> = 0" using left by auto
    finally show ?thesis using 0 by simp
  next
    case (Suc k')
    then have "k' < j'" using Cons.prems(4) j' by simp
    then show ?thesis
      using Cons.IH [OF step dist rest _ j'(2) changed] Suc by simp
  qed
qed

lemma select_batches_props:
  assumes "distinct (map b_id tbl)"
  shows "distinct (map b_id (select_batches pid tbl))"
    and "set (select_batches pid tbl) = {b \<in> set tbl. b_product_id b = pid \<and> 0 < b_quantity b}"
    and "sorted (map b_expiry_date (select_batches pid tbl))"
proof -
  have "distinct tbl" and "inj_on b_id (set tbl)"
    using assms by (simp_all add: distinct_map)
  then show "distinct (map b_id (select_batches pid tbl))"
    unfolding select_batches_def
    by (auto simp: distinct_map intro: inj_on_subset)
  show "set (select_batches pid tbl) = {b \<in> set tbl. b_product_id b = pid \<and> 0 < b_quantity b}"
    unfolding select_batches_def by auto
  show "sorted (map b_expiry_date (select_batches pid tbl))"
    unfolding select_batches_def by simp
qed


lemma fifo_deduct_ids:
  "fifo_deduct F remaining bs tbl = Inr tbl' \<Longrightarrow> map b_id tbl' = map b_id tbl"
proof (induction bs arbitrary: remaining tbl)
  case Nil
  then show ?case by simp
next
  case (Cons b bs)
  show ?case
  proof (cases "remaining \<le> 0")
    case True
    with Cons.prems show ?thesis by simp
  next
    case False
    then have "map b_id tbl' =
        map b_id (update_batch_quantity (b_id b) (min (b_quantity b) remaining) tbl)"
      using Cons.IH [OF fifo_deduct_step [OF Cons.prems]] by simp
    then show ?thesis by (simp add: update_batch_quantity_def comp_def)
  qed
qed

text \<open>
  C3. In a successful SALE the batches of the product with a positive quantity are visited
  in ascending order of expiry date; the rows of the batch table stay the same rows; a
  batch either keeps its quantity or belongs to the product and ends with a smaller
  quantity that is still at least 0; and whenever a batch has been deducted from, every
  batch of the product that expires strictly earlier and had stock is at 0.
\<close>

theorem fifo_batch_consumption:
  assumes keys: "distinct (map b_id (inventory_batches d))"
      and found: "find_product product_name (products d) = Some r"
      and run: "log_transaction F today product_name quantity ''SALE'' d = (Success n, d')"
  shows "sorted (map b_expiry_date (select_batches (p_id r) (inventory_batches d))) \<and>
         map b_id (inventory_batches d') = map b_id (inventory_batches d) \<and>
         (\<forall>b \<in> set (inventory_batches d).
            quantity_of (inventory_batches d') (b_id b) = b_quantity b \<or>
            (b_product_id b = p_id r \<and>
             0 \<le> quantity_of (inventory_batches d') (b_id b) \<and>
             quantity_of (inventory_batches d') (b_id b) < b_quantity b)) \<and>
         (\<forall>b1 \<in> set (inventory_batches d). \<forall>b2 \<in> set (inventory_batches d).
            b_product_id b1 = p_id r \<and> 0 < b_quantity b1 \<and>
            b_expiry_date b1 < b_expiry_date b2 \<and>
            quantity_of (inventory_batches d') (b_id b2) < b_quantity b2 \<longrightarrow>
            quantity_of (inventory_batches d') (b_id b1) = 0)"
proof -
  let ?tbl = "inventory_batches d" and ?tbl' = "inventory_batches d'"
  let ?sel = "select_batches (p_id r) ?tbl"
  have loop: "fifo_deduct F quantity ?sel ?tbl = Inr ?tbl'"
    using log_transaction_body_success(4) [OF log_transaction_Success [OF run] found] by simp
  note sel = select_batches_props [OF keys, of "p_id r"]
  have inj: "inj_on b_id (set ?tbl)" using keys by (simp add: distinct_map)
  have pre: "\<forall>b \<in> set ?sel. 0 < b_quantity b \<and> quantity_of ?tbl (b_id b) = b_quantity b"
    using sel(2) quantity_of_member [OF keys] by auto
  have untouched: "quantity_of ?tbl' (b_id b) = b_quantity b"
    if "b \<in> set ?tbl" "b \<notin> set ?sel" for b
  proof -
    have "b_id b \<notin> b_id ` set ?sel"
    proof
      assume "b_id b \<in> b_id ` set ?sel"
      then obtain s where s: "s \<in> set ?sel" "b_id s = b_id b" by auto
      then have "s \<in> set ?tbl" using sel(2) by auto
      then have "s = b" using inj s(2) that(1) by (auto dest: inj_onD)
      then show False using s(1) that(2) by simp
    qed
    then show ?thesis
      using fifo_deduct_others [OF loop] quantity_of_member [OF keys that(1)] by simp
  qed
  have bounds: "\<forall>b \<in> set ?tbl.
            quantity_of ?tbl' (b_id b) = b_quantity b \<or>
            (b_product_id b = p_id r \<and> 0 \<le> quantity_of ?tbl' (b_id b) \<and>
             quantity_of ?tbl' (b_id b) < b_quantity b)"
  proof
    fix b assume b: "b \<in> set ?tbl"
    show "quantity_of ?tbl' (b_id b) = b_quantity b \<or>
            (b_product_id b = p_id r \<and> 0 \<le> quantity_of ?tbl' (b_id b) \<and>
             quantity_of ?tbl' (b_id b) < b_quantity b)"
    proof (cases "b \<in> set ?sel")
      case True
      then have "b_product_id b = p_id r" using sel(2) by auto
      then show ?thesis
        using fifo_deduct_bounds [OF loop sel(1) pre True] by auto
    next
      case False
      then show ?thesis using untouched [OF b] by simp
    qed
  qed
  have order: "quantity_of ?tbl' (b_id b1) = 0"
    if b1: "b1 \<in> set ?tbl" "b_product_id b1 = p_id r" "0 < b_quantity b1"
      and b2: "b2 \<in> set ?tbl" "quantity_of ?tbl' (b_id b2) < b_quantity b2"
      and lt: "b_expiry_date b1 < b_expiry_date b2" for b1 b2
  proof -
    have "b1 \<in> set ?sel" using b1 sel(2) by auto
    then obtain k where k: "k < length ?sel" "?sel ! k = b1"
      by (auto simp: in_set_conv_nth)
    have "b2 \<in> set ?sel" using untouched [OF b2(1)] b2(2) by auto
    then obtain j where j: "j < length ?sel" "?sel ! j = b2"
      by (auto simp: in_set_conv_nth)
    have "k < j"
    proof (rule ccontr)
      assume "\<not> k < j"
      then have "j \<le> k" by simp
      then have "map b_expiry_date ?sel ! j \<le> map b_expiry_date ?sel ! k"
        using sel(3) k(1) by (simp add: sorted_iff_nth_mono del: nth_map)
      then show False using lt k j by simp
    qed
    then show ?thesis
      using fifo_deduct_order [OF loop sel(1) pre _ j(1)] b2(2) j(2) k(2) by auto
  qed
  show ?thesis
    using sel(3) fifo_deduct_ids [OF loop] bounds order by blast
qed

theorem fifo_batch_consumption_witness:
  "distinct (map b_id (inventory_batches dairy)) \<and>
   find_product ''Milk'' (products dairy) = Some milk \<and>
   log_transaction no_faults 100 ''Milk'' 4 ''SALE'' dairy = (Success 1, dairy_sold 4 1 1 0) \<and>
   b_expiry_date early_batch < b_expiry_date late_batch \<and>
   quantity_of (inventory_batches (dairy_sold 4 1 1 0)) (b_id late_batch) = 1 \<and>
   quantity_of (inventory_batches (dairy_sold 4 1 1 0)) (b_id early_batch) = 0"
proof -
  have keys: "distinct (map b_id (inventory_batches dairy))"
    by (simp add: dairy_def late_batch_def early_batch_def)
  have found: "find_product ''Milk'' (products dairy) = Some milk"
    by (simp add: find_product_def dairy_def milk_def)
  have late: "quantity_of (inventory_batches (dairy_sold 4 1 1 0)) (b_id late_batch) = 1"
    by (simp add: quantity_of_def dairy_sold_def late_batch_def early_batch_def)
  have mem: "early_batch \<in> set (inventory_batches dairy)"
    "late_batch \<in> set (inventory_batches dairy)"
    by (simp_all add: dairy_def)
  have pre: "b_product_id early_batch = p_id milk \<and> 0 < b_quantity early_batch \<and>
      b_expiry_date early_batch < b_expiry_date late_batch \<and>
      quantity_of (inventory_batches (dairy_sold 4 1 1 0)) (b_id late_batch)
        < b_quantity late_batch"
    using late by (simp add: late_batch_def early_batch_def milk_def)
  have "quantity_of (inventory_batches (dairy_sold 4 1 1 0)) (b_id early_batch) = 0"
    using fifo_batch_consumption [OF keys found dairy_sale_4] mem pre by blast
  then show ?thesis using keys found dairy_sale_4 late pre by simp
qed

section \<open>Properties of the analytics\<close>

subsection \<open>Rounding\<close>

lemma py_round_minus: "py_round (- x) = - py_round x"
proof (cases "x \<in> \<int>")
  case True
  then obtain k where "x = of_int k" by (auto elim: Ints_cases)
  then show ?thesis by (simp add: py_round_def flip: of_int_minus)
next
  case False
  then have "x \<noteq> of_int \<lfloor>x\<rfloor>" by (metis Ints_of_int)
  then have fl: "\<lfloor>- x\<rfloor> = - \<lfloor>x\<rfloor> - 1"
    by (simp add: floor_minus ceiling_altdef)
  have "even (- \<lfloor>x\<rfloor> - 1) \<longleftrightarrow> odd \<lfloor>x\<rfloor>" by simp
  then show ?thesis
    unfolding py_round_def Let_def fl
    by (auto simp: algebra_simps)
qed

lemma round_to_minus: "round_to n (- x) = - round_to n x"
  by (simp add: round_to_def py_round_minus)

lemma py_round_ge: "of_int k \<le> x \<Longrightarrow> k \<le> py_round x"
proof -
  assume "of_int k \<le> x"
  then have "k \<le> \<lfloor>x\<rfloor>" by (simp add: le_floor_iff)
  then show ?thesis by (auto simp: py_round_def Let_def)
qed

lemma round_to_2_half: "1 / 2 \<le> c \<Longrightarrow> 1 / 2 \<le> round_to 2 c"
proof -
  assume "1 / 2 \<le> c"
  then have "of_int 50 \<le> c * 10 ^ 2" by simp
  then have "50 \<le> py_round (c * 10 ^ 2)" by (rule py_round_ge)
  then have "(50::real) \<le> of_int (py_round (c * 10 ^ 2))" by linarith
  then show ?thesis by (simp add: round_to_def)
qed

lemma sales_of_h234: "sales_of h234 = [2, 3, 4]"
  by (simp add: sales_of_def h234_def)

lemma volatility_of_234: "volatility_of [2, 3, 4] = 1 / 3"
  by (simp add: volatility_of_def std_def mean_def power2_eq_square)

lemma forecast_demand_h234: "forecast_demand h234 = Inr info3"
  by (simp add: forecast_demand_def sales_of_h234 volatility_of_234 Let_def trend_pct_of_def
      tail_def mean_def round_to_def py_round_def py_int_def upt_rec info3_def)

lemma last_avg_nonempty: "product_data \<noteq> [] \<Longrightarrow>
   \<exists>a. mean (tail 7 (sales_of product_data)) = Some a \<and> sales_of product_data \<noteq> []"
  by (cases product_data) (auto simp: mean_def tail_def sales_of_def)

subsection \<open>Forecast\<close>

text \<open>
  C4 (fails on the code). On an empty history the fallback \<^verbatim>\<open>product_data['sales'].mean()\<close>
  is NaN, and \<^verbatim>\<open>int(forecast_value)\<close> raises \<^verbatim>\<open>ValueError\<close>: no result is
  returned.
\<close>

theorem forecast_demand_empty_history_raises:
  "forecast_demand [] = Inl ValueError"
  by (simp add: forecast_demand_def sales_of_def mean_def Let_def)

text \<open>
  C10, as stated, fails where the confidence has more than two decimals: the returned
  score is \<^verbatim>\<open>round(confidence, 2)\<close>. Sales 2, 3, 4 have volatility 1/3, confidence
  2/3, and the returned score is 0.67.
\<close>

theorem confidence_score_not_unrounded:
  "map_sum id confidence_score (forecast_demand h234) \<noteq>
     Inr (max (1 / 10) (1 - min (volatility_of (sales_of h234)) (1 / 2)))"
  by (simp add: forecast_demand_h234 sales_of_h234 volatility_of_234 info3_def)

text \<open>
  C10, amended. For every non-empty history \<^verbatim>\<open>forecast_demand\<close> returns, its
  \<^verbatim>\<open>confidence_score\<close> is \<open>max 0.1 (1 - min volatility 0.5)\<close> rounded to two
  decimals, both the rounded and the unrounded value are at least 0.5, and the tier is
  HIGH or MEDIUM, never LOW.
\<close>

theorem confidence_never_low:
  assumes "product_data \<noteq> []"
  shows "\<exists>r. forecast_demand product_data = Inr r \<and>
             confidence_score r =
               round_to 2 (max (1 / 10) (1 - min (volatility_of (sales_of product_data)) (1 / 2))) \<and>
             1 / 2 \<le> max (1 / 10) (1 - min (volatility_of (sales_of product_data)) (1 / 2)) \<and>
             1 / 2 \<le> confidence_score r \<and>
             (confidence_tier r = ''HIGH'' \<or> confidence_tier r = ''MEDIUM'') \<and>
             confidence_tier r \<noteq> ''LOW''"
proof -
  let ?c = "max (1 / 10) (1 - min (volatility_of (sales_of product_data)) (1 / 2))"
  obtain a where a: "mean (tail 7 (sales_of product_data)) = Some a"
    "sales_of product_data \<noteq> []"
    using last_avg_nonempty [OF assms] by blast
  have c: "1 / 2 \<le> ?c" by auto
  then have r: "1 / 2 \<le> round_to 2 ?c" by (rule round_to_2_half)
  show ?thesis
    using a c r by (auto simp: forecast_demand_def Let_def)
qed

theorem confidence_never_low_witness:
  "h234 \<noteq> [] \<and> forecast_demand h234 = Inr info3 \<and> confidence_score info3 = 67 / 100 \<and>
   confidence_tier info3 = ''MEDIUM''"
proof -
  have ne: "h234 \<noteq> []" by (simp add: h234_def)
  show ?thesis
    using confidence_never_low [OF ne] ne forecast_demand_h234 by (simp add: info3_def)
qed

subsection \<open>Inventory risk\<close>

text \<open>
  C5, as stated, fails where the quotient has more than one decimal: the returned
  \<^verbatim>\<open>days_of_stock\<close> is \<^verbatim>\<open>round(days_of_stock, 1)\<close>. Inventory 10 at 3 units a day
  returns 3.3.
\<close>

theorem days_of_stock_not_exact_quotient:
  "map_sum id days_of_stock (assess_inventory_risk 0 h234 info3 None) \<noteq>
     Inr (real_of_int (inventory (last h234)) / last_7d_avg info3)"
  by (simp add: assess_inventory_risk_def h234_def info3_def Let_def round_to_def py_round_def)

text \<open>
  C5, amended. For every non-empty history \<^verbatim>\<open>assess_inventory_risk\<close> returns, and
  its \<^verbatim>\<open>days_of_stock\<close> is the latest inventory divided by \<^verbatim>\<open>last_7d_avg\<close>,
  rounded to one decimal, when that average is positive, and 999 otherwise; the zero-mean
  case does not raise.
\<close>

theorem days_of_stock_rounded:
  assumes "product_data \<noteq> []"
  shows "\<exists>r. assess_inventory_risk now product_data info current_date = Inr r \<and>
             days_of_stock r =
               (if 0 < last_7d_avg info
                then round_to 1 (real_of_int (inventory (last product_data)) / last_7d_avg info)
                else 999)"
  using assms
  by (simp add: assess_inventory_risk_def Let_def round_to_def py_round_def)

theorem days_of_stock_rounded_witness:
  "h234 \<noteq> [] \<and>
   map_sum id days_of_stock (assess_inventory_risk 0 h234 info3 None) = Inr (33 / 10) \<and>
   map_sum id days_of_stock (assess_inventory_risk 0 h234 info0 None) = Inr 999"
proof -
  have ne: "h234 \<noteq> []" by (simp add: h234_def)
  have l: "inventory (last h234) = 10" by (simp add: h234_def)
  show ?thesis
    using days_of_stock_rounded [OF ne, of 0 info3 None]
      days_of_stock_rounded [OF ne, of 0 info0 None] ne l
    by (auto simp: info3_def info0_def round_to_def py_round_def)
qed

subsection \<open>Risk classification\<close>

text \<open>
  C6 (fails on the code). An expiry one day away adds 100 to the risk score, yet with a
  7-day trend of +20% and low volatility the opportunity score is 45: rule 1 needs it
  below 30, so the product is classified MEDIUM_RISK by rule 3.
\<close>

theorem critical_expiry_classified_medium_risk:
  "expiry_check expiring_and_trending = (100, ''CRITICAL'') \<and>
   risk_score (classify_product_v2 expiring_and_trending 0) = 100 \<and>
   opportunity_score (classify_product_v2 expiring_and_trending 0) = 45 \<and>
   category (classify_product_v2 expiring_and_trending 0) = ''MEDIUM_RISK''"
  by (simp add: classify_product_v2_def expiry_check_def days_between_def
      expiring_and_trending_def Let_def)

subsection \<open>Simulator\<close>

text \<open>
  C7 (fails on the code). With current days-of-stock 0 the inventory simulation divides by
  zero, and with current price 0 so does the price simulation.
\<close>

theorem simulation_zero_baseline_raises:
  "simulate_inventory_change 0 14 10 2 = Inl ZeroDivisionError \<and>
   simulate_price_impact 0 5 10 10 None = Inl ZeroDivisionError"
  by (simp add: simulate_inventory_change_def simulate_price_impact_def)

text \<open>
  C8 (fails on the code). The segment filter of the catalogue-wide simulation slices the
  product list by position: for \<^verbatim>\<open>high_risk\<close> it keeps the first third. In a
  catalogue of three whose only HIGH_RISK product is the last, it selects the first
  product, which is STABLE; the filter in analyzer.py selects the HIGH_RISK one.
\<close>

theorem segment_is_a_positional_slice:
  "target_products (Some ''high_risk'') catalogue = [''Apples''] \<and>
   catalogue_risk ''Apples'' = ''STABLE'' \<and>
   filter (\<lambda>p. catalogue_risk p = ''HIGH_RISK'') catalogue = [''Cheese''] \<and>
   analyzer_segment_products catalogue_risk ''HIGH_RISK'' catalogue = [''Cheese'']"
  by (simp add: target_products_def segment_products_def catalogue_def catalogue_risk_def
      analyzer_segment_products_def)

text \<open>
  C9. With a non-zero current price and elasticity 1.0 (given, or the default), the price
  simulation returns, and its \<^verbatim>\<open>demand_change_pct\<close> is exactly the negation of its
  \<^verbatim>\<open>price_change_pct\<close>.
\<close>

theorem unit_elasticity_negates_price_change:
  assumes "current_price \<noteq> 0" and "elasticity = None \<or> elasticity = Some 1"
  shows "\<exists>r. simulate_price_impact current_price new_price current_demand forecast elasticity = Inr r \<and>
             demand_change_pct r = - price_change_pct r"
  using assms
  by (auto simp: simulate_price_impact_def default_elasticity_def Let_def round_to_minus)

theorem unit_elasticity_witness:
  "(4::real) \<noteq> 0 \<and>
   map_sum id price_change_pct (simulate_price_impact 4 (9 / 2) 10 12 (Some 1)) = Inr (25 / 2) \<and>
   map_sum id demand_change_pct (simulate_price_impact 4 (9 / 2) 10 12 (Some 1)) = Inr (- (25 / 2))"
proof -
  have nz: "(4::real) \<noteq> 0" by simp
  have e: "Some (1::real) = None \<or> Some (1::real) = Some 1" by simp
  have "map_sum id price_change_pct (simulate_price_impact 4 (9 / 2) 10 12 (Some 1)) = Inr (25 / 2)"
    by (simp add: simulate_price_impact_def Let_def round_to_def py_round_def)
  then show ?thesis
    using unit_elasticity_negates_price_change [OF nz e, of "9 / 2" 10 12] by auto
qed

end
